theory Spec2Isabelle
  imports Complex_Main "HOL-Library.Sublist"
begin

section \<open>Text and regular expressions\<close>

text \<open>
  Python's \<^verbatim>\<open>str\<close> is modelled by \<^typ>\<open>string\<close>: one \<^typ>\<open>char\<close> per code point, so
  the model covers texts whose code points are below 256. On that range the classes of
  Python's \<^verbatim>\<open>re\<close> module for \<^verbatim>\<open>str\<close> patterns are: \<^verbatim>\<open>\d\<close> is \<^verbatim>\<open>0-9\<close>; \<^verbatim>\<open>\s\<close> is the
  code points 9-13, 28-31, 32, 133 and 160; \<^verbatim>\<open>.\<close> is everything but the line feed; and
  under \<^verbatim>\<open>re.IGNORECASE\<close> an ASCII letter of the pattern matches its two ASCII cases.
\<close>

definition ESC :: char where
  "ESC = CHR 0x1B"

definition LF :: char where
  "LF = CHR 0x0A"

definition in_range :: "char \<Rightarrow> char \<Rightarrow> char \<Rightarrow> bool" where
  "in_range lo hi c = ((of_char lo :: int) \<le> of_char c \<and> (of_char c :: int) \<le> of_char hi)"

definition is_digit :: "char \<Rightarrow> bool" where
  "is_digit c = in_range CHR ''0'' CHR ''9'' c"

definition is_space :: "char \<Rightarrow> bool" where
  "is_space c = (in_range CHR 0x09 CHR 0x0D c \<or> in_range CHR 0x1C CHR 0x20 c
     \<or> c = CHR 0x85 \<or> c = CHR 0xA0)"

definition lower_ascii :: "char \<Rightarrow> char" where
  "lower_ascii c = (if in_range CHR ''A'' CHR ''Z'' c then char_of (of_char c + (32::int)) else c)"

text \<open>
  The patterns of the source are kept as syntax trees and run by one matcher.
  \<open>rx_match r s\<close> lists, in the order a backtracking matcher tries them, the rests of
  \<open>s\<close> after each way \<open>r\<close> matches a prefix of \<open>s\<close>: the left alternative first, the
  longest repetition first. Its head is the match \<^verbatim>\<open>re\<close> reports at that position.
  \<open>Eol\<close> is \<^verbatim>\<open>$\<close> under \<^verbatim>\<open>re.MULTILINE\<close>.
\<close>

datatype rx =
    Chr "char \<Rightarrow> bool"
  | Eps
  | Eol
  | Seq rx rx
  | Alt rx rx
  | Star rx

fun rx_match :: "rx \<Rightarrow> string \<Rightarrow> string list" where
  "rx_match (Chr p) s = (case s of [] \<Rightarrow> [] | c # cs \<Rightarrow> if p c then [cs] else [])"
| "rx_match Eps s = [s]"
| "rx_match Eol s = (case s of [] \<Rightarrow> [s] | c # cs \<Rightarrow> if c = LF then [s] else [])"
| "rx_match (Seq a b) s = concat (map (rx_match b) (rx_match a s))"
| "rx_match (Alt a b) s = rx_match a s @ rx_match b s"
| "rx_match (Star a) s =
     concat (map (\<lambda>r. if length r < length s then rx_match (Star a) r else []) (rx_match a s))
     @ [s]"

definition lit :: "string \<Rightarrow> rx" where
  "lit w = foldr (\<lambda>c r. Seq (Chr (\<lambda>x. x = c)) r) w Eps"

definition lit_ci :: "string \<Rightarrow> rx" where
  "lit_ci w = foldr (\<lambda>c r. Seq (Chr (\<lambda>x. lower_ascii x = lower_ascii c)) r) w Eps"

definition one_of :: "string \<Rightarrow> rx" where
  "one_of cs = Chr (\<lambda>x. x \<in> set cs)"

definition dot :: rx where
  "dot = Chr (\<lambda>x. x \<noteq> LF)"

definition Plus :: "rx \<Rightarrow> rx" where
  "Plus r = Seq r (Star r)"

fun seqs :: "rx list \<Rightarrow> rx" where
  "seqs [] = Eps"
| "seqs [r] = r"
| "seqs (r # rs) = Seq r (seqs rs)"

fun alts :: "rx list \<Rightarrow> rx" where
  "alts [] = Chr (\<lambda>x. False)"
| "alts [r] = r"
| "alts (r # rs) = Alt r (alts rs)"

text \<open>\<^verbatim>\<open>re.search(pattern, text)\<close> as a truth value: some position has a match.\<close>

fun rx_search :: "rx \<Rightarrow> string \<Rightarrow> bool" where
  "rx_search r [] = (rx_match r [] \<noteq> [])"
| "rx_search r (c # cs) = (rx_match r (c # cs) \<noteq> [] \<or> rx_search r cs)"

text \<open>
  \<^verbatim>\<open>pattern.sub(repl, text)\<close> for a literal replacement: scan from the left, replace
  the match found at a position and go on behind it, copy the character where nothing
  matches. An empty match puts the replacement in front of the character it stands at.
\<close>

function rx_sub :: "rx \<Rightarrow> string \<Rightarrow> string \<Rightarrow> string" where
  "rx_sub r repl [] = (if rx_match r [] \<noteq> [] then repl else [])"
| "rx_sub r repl (c # cs) =
     (case rx_match r (c # cs) of
        [] \<Rightarrow> c # rx_sub r repl cs
      | rest # _ \<Rightarrow>
          if length rest < length (c # cs) then repl @ rx_sub r repl rest
          else repl @ c # rx_sub r repl cs)"
  by pat_completeness auto
termination
  by (relation "measure (\<lambda>(r, repl, s). length s)") auto

text \<open>Python's \<^verbatim>\<open>needle in text\<close> and \<^verbatim>\<open>text.count(c)\<close> for a one-character \<open>c\<close>.\<close>

fun str_in :: "string \<Rightarrow> string \<Rightarrow> bool" where
  "str_in w [] = (w = [])"
| "str_in w (c # cs) = (prefix w (c # cs) \<or> str_in w cs)"

definition count_char :: "char \<Rightarrow> string \<Rightarrow> nat" where
  "count_char c s = length (filter (\<lambda>x. x = c) s)"

section \<open>constants.py\<close>

text \<open>
  \<^verbatim>\<open>ANSI_ESCAPE_PATTERN = \x1b(?:[@-Z\\-_]|\[[0-?]*[ -/]*[@-~]|\][^\x07]*\x07)\<close> and
  \<^verbatim>\<open>ANSI_CURSOR_PATTERN = \x1b\[[\d;]*[ABCDEFGHJKfsu]\<close>.
\<close>

definition ANSI_ESCAPE_PATTERN :: rx where
  "ANSI_ESCAPE_PATTERN =
     Seq (Chr (\<lambda>x. x = ESC))
       (alts [
          Chr (\<lambda>x. in_range CHR ''@'' CHR ''Z'' x \<or> in_range CHR 0x5C CHR ''_'' x),
          seqs [Chr (\<lambda>x. x = CHR ''[''),
                Star (Chr (in_range CHR ''0'' CHR ''?'')),
                Star (Chr (in_range CHR '' '' CHR ''/'')),
                Chr (in_range CHR ''@'' CHR ''~'')],
          seqs [Chr (\<lambda>x. x = CHR '']''),
                Star (Chr (\<lambda>x. x \<noteq> CHR 0x07)),
                Chr (\<lambda>x. x = CHR 0x07)]])"

definition ANSI_CURSOR_PATTERN :: rx where
  "ANSI_CURSOR_PATTERN =
     seqs [Chr (\<lambda>x. x = ESC), Chr (\<lambda>x. x = CHR ''[''),
           Star (Chr (\<lambda>x. is_digit x \<or> x = CHR '';'')),
           one_of ''ABCDEFGHJKfsu'']"

definition MAX_BUFFER_SIZE :: nat where
  "MAX_BUFFER_SIZE = 10000"

section \<open>detection.py: PromptDetector\<close>

definition strip_ansi :: "string \<Rightarrow> string" where
  "strip_ansi text =
     (let text = rx_sub ANSI_CURSOR_PATTERN '' '' text;
          text = rx_sub ANSI_ESCAPE_PATTERN '''' text;
          text = rx_sub (Plus (Chr (\<lambda>x. x = CHR '' ''))) '' '' text
      in text)"

section \<open>config.py\<close>

text \<open>
  The configuration dictionary, read everywhere through \<^verbatim>\<open>config.get(key, default)\<close>,
  with one typed field per key the modelled code reads. \<open>DEFAULT_CONFIG\<close> holds the
  values of \<^verbatim>\<open>Config.DEFAULT_CONFIG\<close>; \<^verbatim>\<open>idle_timeout_seconds\<close> 2.5 is \<open>5 / 2\<close>.
\<close>

record config =
  auto_approve_delay_cfg :: int
  auto_approve_enabled_cfg :: bool
  min_detection_score :: int
  max_approvals_per_minute :: int
  max_same_prompt_approvals :: int
  idle_detection_enabled :: bool
  idle_timeout_seconds :: real
  permission_indicators :: "string list"

definition DEFAULT_CONFIG :: config where
  "DEFAULT_CONFIG = \<lparr>
     auto_approve_delay_cfg = 1,
     auto_approve_enabled_cfg = True,
     min_detection_score = 3,
     max_approvals_per_minute = 500,
     max_same_prompt_approvals = 5,
     idle_detection_enabled = True,
     idle_timeout_seconds = 5 / 2,
     permission_indicators = [] \<rparr>"

section \<open>detection.py: the classifier\<close>

text \<open>
  \<open>permission_score\<close> is the local variable \<^verbatim>\<open>score\<close> of
  \<^verbatim>\<open>PromptDetector.is_permission_prompt\<close> at its \<^verbatim>\<open>return\<close>; the debug logging is left out.
\<close>

definition create_edit_words :: rx where
  "create_edit_words =
     alts [lit_ci ''create'', lit_ci ''edit'', lit_ci ''delete'', lit_ci ''modify'', lit_ci ''write'']"

definition permission_score :: "config \<Rightarrow> string \<Rightarrow> int" where
  "permission_score cfg text =
     (let clean_text = strip_ansi text;
          score = (0::int);
          score = (if str_in ''Permission rule'' clean_text then score + 2 else score);
          score = (if str_in ''Do you want to proceed?'' clean_text then score + 2 else score);
          score = (if str_in ''Would you like to proceed?'' clean_text then score + 2 else score);
          score = (if rx_search (Seq (lit_ci ''Do you want to '') create_edit_words) clean_text
                   then score + 2 else score);
          score = (if rx_search (Seq (lit_ci ''Would you like to '') create_edit_words) clean_text
                   then score + 2 else score);
          score = (if str_in ''Esc to cancel'' clean_text then score + 1 else score);
          score = (if str_in ''Tab to amend'' clean_text then score + 1 else score);
          score = (if str_in ''Enter to approve'' clean_text \<or> str_in ''Enter to confirm'' clean_text
                   then score + 1 else score);
          has_yes = (str_in ''1. Yes'' clean_text \<or> str_in ''1) Yes'' clean_text);
          has_no = (rx_search (seqs [one_of ''23'', lit ''.'', Star (Chr is_space), lit ''No'']) clean_text
                    \<or> rx_search (seqs [one_of ''23'', lit '')'', Star (Chr is_space), lit ''No'']) clean_text);
          score = (if has_yes \<and> has_no then score + 3 else score);
          score = (if rx_search (seqs [lit ''(y/n)'', Star (Chr is_space), Eol]) clean_text
                   then score + 1 else score);
          score = (if list_ex (\<lambda>indicator. str_in indicator clean_text) (permission_indicators cfg)
                   then score + 2 else score);
          score = (if str_in ''```'' clean_text then 0 else score);
          score = (if length clean_text > 2000 then max 0 (score - 2) else score);
          sentence_count = count_char CHR ''.'' clean_text + count_char CHR ''?'' clean_text
                           + count_char CHR ''!'' clean_text;
          score = (if sentence_count > 10 then max 0 (score - 1) else score)
      in score)"

definition is_permission_prompt :: "config \<Rightarrow> string \<Rightarrow> bool" where
  "is_permission_prompt cfg text = (permission_score cfg text \<ge> min_detection_score cfg)"

datatype prompt_type = numbered_menu | text_input

definition get_prompt_type :: "string \<Rightarrow> prompt_type" where
  "get_prompt_type text =
     (let clean_text = strip_ansi text in
      if str_in ''1. Yes'' clean_text \<or> str_in ''2. No'' clean_text then numbered_menu
      else if rx_search (alts [seqs [lit_ci ''Type'', Star dot, lit_ci ''yes''],
                               seqs [lit_ci ''Enter'', Star dot, lit_ci ''yes''],
                               lit_ci ''(y/n)'']) clean_text then text_input
      else numbered_menu)"

definition question_patterns :: "rx list" where
  "question_patterns =
     [seqs [Plus (Chr is_digit), lit '')'', Plus (Chr is_space)],
      lit_ci ''Select an option'',
      seqs [lit_ci ''Choose'', Star dot, lit '':''],
      seqs [lit ''['', Star dot, lit '']'', Star dot, lit ''?'']]"

text \<open>The loop over the patterns returns at the first one found in the raw text.\<close>

fun any_pattern :: "rx list \<Rightarrow> string \<Rightarrow> bool" where
  "any_pattern [] text = False"
| "any_pattern (pattern # rest) text = (if rx_search pattern text then True else any_pattern rest text)"

definition is_question_prompt :: "config \<Rightarrow> string \<Rightarrow> bool" where
  "is_question_prompt cfg text =
     (if is_permission_prompt cfg text then False
      else any_pattern question_patterns text)"

section \<open>detection.py: RateLimiter\<close>

text \<open>
  A reading of \<^verbatim>\<open>time.time()\<close> is a parameter of the function that reads the clock,
  and time is a real number of seconds. \<^verbatim>\<open>hashlib.md5(...).hexdigest()\<close> is a parameter
  \<open>hash_prompt\<close> as well, and so is \<^verbatim>\<open>strip_ansi_func\<close>, which the callers pass.
\<close>

record limiter =
  approval_timestamps :: "real list"
  approval_hashes :: "(string \<times> real) list"

definition cleanup_old_entries :: "real \<Rightarrow> real \<Rightarrow> 'a limiter_scheme \<Rightarrow> 'a limiter_scheme" where
  "cleanup_old_entries current_time window_seconds s =
     s\<lparr> approval_timestamps := filter (\<lambda>t. current_time - t < window_seconds) (approval_timestamps s),
        approval_hashes := filter (\<lambda>(h, t). current_time - t < window_seconds) (approval_hashes s) \<rparr>"

fun str_of_nat :: "nat \<Rightarrow> string" where
  "str_of_nat n =
     (if n < 10 then [char_of (48 + n)] else str_of_nat (n div 10) @ [char_of (48 + n mod 10)])"

definition str_of_int :: "int \<Rightarrow> string" where
  "str_of_int i = (if i < 0 then ''-'' @ str_of_nat (nat (- i)) else str_of_nat (nat i))"

definition same_prompt_reason :: "int \<Rightarrow> int \<Rightarrow> string" where
  "same_prompt_reason same_prompt_count max_same_prompt =
     ''Same prompt approved '' @ str_of_int same_prompt_count @ '' times in 60s (max: ''
       @ str_of_int max_same_prompt @ '')''"

definition rate_limit_reason :: "int \<Rightarrow> int \<Rightarrow> string" where
  "rate_limit_reason n max_per_minute =
     ''Rate limit: '' @ str_of_int n @ '' approvals/min (max: '' @ str_of_int max_per_minute @ '')''"

definition check_approval_allowed ::
  "(string \<Rightarrow> string) \<Rightarrow> (string \<Rightarrow> string) \<Rightarrow> config \<Rightarrow> real \<Rightarrow> string \<Rightarrow> 'a limiter_scheme
   \<Rightarrow> (bool \<times> string option) \<times> 'a limiter_scheme" where
  "check_approval_allowed hash_prompt strip_ansi_func cfg current_time text s =
     (let s = cleanup_old_entries current_time 60 s;
          clean_text = strip_ansi_func text;
          prompt_hash = hash_prompt clean_text;
          same_prompt_count = int (length (filter (\<lambda>(h, t). h = prompt_hash) (approval_hashes s)));
          max_same_prompt = max_same_prompt_approvals cfg
      in if same_prompt_count \<ge> max_same_prompt
         then ((False, Some (same_prompt_reason same_prompt_count max_same_prompt)), s)
         else
           let max_per_minute = max_approvals_per_minute cfg
           in if int (length (approval_timestamps s)) \<ge> max_per_minute
              then ((False, Some (rate_limit_reason (int (length (approval_timestamps s))) max_per_minute)), s)
              else ((True, None), s))"

definition record_approval ::
  "(string \<Rightarrow> string) \<Rightarrow> (string \<Rightarrow> string) \<Rightarrow> real \<Rightarrow> string \<Rightarrow> 'a limiter_scheme \<Rightarrow> 'a limiter_scheme" where
  "record_approval hash_prompt strip_ansi_func current_time text s =
     (let clean_text = strip_ansi_func text;
          prompt_hash = hash_prompt clean_text
      in s\<lparr> approval_timestamps := approval_timestamps s @ [current_time],
            approval_hashes := approval_hashes s @ [(prompt_hash, current_time)] \<rparr>)"

section \<open>approval.py: ApprovalManager\<close>

text \<open>
  The manager, the limiter and the wrapper are single objects that hold references to
  each other, so the state is one record built by extension: the limiter's fields, then
  the manager's, then the wrapper's. Two more fields stand for the environment:
  \<open>effects\<close> is the log, in order, of what was written to the PTY master and to standard
  output, drawn on the status bar and slept; \<open>threads\<close> holds the control point of every
  countdown thread started so far, in the order they were started.
\<close>

datatype message =
    Msg_cancelled
  | Msg_countdown nat
  | Msg_auto_approved int
  | Msg_approved_immediately int
  | Msg_blocked "string option"
  | Msg_idle_detected
  | Msg_idle_approved int

datatype effect =
    Pty_write string
  | Stdout_write string
  | Draw message string
  | Clear bool int
  | Sleep real

text \<open>
  A countdown thread is at the head of the loop iteration with \<^verbatim>\<open>i = k\<close> (\<open>Loop k\<close>,
  where \<open>Loop 0\<close> is the exhausted loop), at the final check, in the \<^verbatim>\<open>finally\<close> block of
  \<^verbatim>\<open>countdown_wrapper\<close>, or finished.
\<close>

datatype countdown_pc = Loop nat | Final_check | Finally | Done

record manager = limiter +
  approval_count :: int
  last_approval_time :: real
  countdown_running :: bool
  countdown_cancelled :: bool
  countdown_approve_now :: bool
  last_buffer :: string
  threads :: "countdown_pc list"
  effects :: "effect list"

definition CR :: char where
  "CR = CHR 0x0D"

definition emit :: "effect list \<Rightarrow> 'a manager_scheme \<Rightarrow> 'a manager_scheme" where
  "emit es m = m\<lparr> effects := effects m @ es \<rparr>"

fun pty_writes :: "effect list \<Rightarrow> string list" where
  "pty_writes [] = []"
| "pty_writes (Pty_write b # es) = b # pty_writes es"
| "pty_writes (e # es) = pty_writes es"

definition execute_approval :: "real \<Rightarrow> 'a manager_scheme \<Rightarrow> 'a manager_scheme" where
  "execute_approval current_time m =
     (let m = m\<lparr> approval_count := approval_count m + 1 \<rparr>;
          m = m\<lparr> last_approval_time := current_time \<rparr>;
          m = (if \<not> countdown_approve_now m
               then emit [Draw (Msg_auto_approved (approval_count m)) ''32''] m
               else emit [Draw (Msg_approved_immediately (approval_count m)) ''32''] m);
          m = emit [Sleep 0.3] m;
          prompt_type = get_prompt_type (last_buffer m);
          m = emit [Sleep 0.1] m;
          m = (if prompt_type = numbered_menu then emit [Pty_write [CR]] m
               else emit [Pty_write ''yes'', Sleep 0.1, Pty_write [CR]] m)
      in emit [Clear True (approval_count m)] m)"

text \<open>
  One step of a countdown thread runs it from its control point to the end of its next
  one-second sleep, or to the end of the function; the other threads act between steps.
\<close>

fun countdown_step :: "real \<Rightarrow> countdown_pc \<Rightarrow> 'a manager_scheme \<Rightarrow> countdown_pc \<times> 'a manager_scheme" where
  "countdown_step current_time (Loop 0) m = (Final_check, m)"
| "countdown_step current_time (Loop (Suc k)) m =
     (if countdown_approve_now m then (Final_check, m)
      else if countdown_cancelled m
      then (Finally, emit [Draw Msg_cancelled ''90'', Sleep 0.3, Clear True (approval_count m)] m)
      else (Loop k, emit [Draw (Msg_countdown (Suc k)) ''33'', Sleep 1] m))"
| "countdown_step current_time Final_check m =
     (if countdown_cancelled m
      then (Finally, emit [Draw Msg_cancelled ''90'', Sleep 0.3, Clear True (approval_count m)] m)
      else (Finally, execute_approval current_time m))"
| "countdown_step current_time Finally m = (Done, m\<lparr> countdown_running := False \<rparr>)"
| "countdown_step current_time Done m = (Done, m)"

fun pc_rank :: "countdown_pc \<Rightarrow> nat" where
  "pc_rank (Loop k) = k + 3"
| "pc_rank Final_check = 2"
| "pc_rank Finally = 1"
| "pc_rank Done = 0"

text \<open>\<open>thread_step\<close> lets thread \<open>tid\<close> take one step; \<open>thread_finish\<close> runs it to its end.\<close>

definition thread_step :: "real \<Rightarrow> nat \<Rightarrow> 'a manager_scheme \<Rightarrow> 'a manager_scheme" where
  "thread_step current_time tid m =
     (if tid < length (threads m)
      then (let (pc, m') = countdown_step current_time (threads m ! tid) m
            in m'\<lparr> threads := (threads m')[tid := pc] \<rparr>)
      else m)"

function countdown_run :: "real \<Rightarrow> countdown_pc \<Rightarrow> 'a manager_scheme \<Rightarrow> 'a manager_scheme" where
  "countdown_run current_time pc m =
     (if pc = Done then m
      else (case countdown_step current_time pc m of (pc', m') \<Rightarrow> countdown_run current_time pc' m'))"
  by pat_completeness auto
termination
proof (relation "measure (\<lambda>(current_time, pc, m). pc_rank pc)")
  show "wf (measure (\<lambda>(current_time :: real, pc, m :: 'a manager_scheme). pc_rank pc))"
    by simp
next
  fix current_time :: real and pc :: countdown_pc and m :: "'a manager_scheme" and pc' m'
  assume run: "pc \<noteq> Done" "(pc', m') = countdown_step current_time pc m"
  show "((current_time, pc', m'), (current_time, pc, m))
          \<in> measure (\<lambda>(current_time, pc, m). pc_rank pc)"
  proof (cases pc)
    case (Loop k)
    with run show ?thesis
      by (cases k) (auto split: if_splits)
  qed (use run in \<open>auto split: if_splits\<close>)
qed

definition thread_finish :: "real \<Rightarrow> nat \<Rightarrow> 'a manager_scheme \<Rightarrow> 'a manager_scheme" where
  "thread_finish current_time tid m =
     (if tid < length (threads m)
      then (let m' = countdown_run current_time (threads m ! tid) m
            in m'\<lparr> threads := (threads m')[tid := Done] \<rparr>)
      else m)"

definition start_countdown ::
  "(string \<Rightarrow> string) \<Rightarrow> config \<Rightarrow> real \<Rightarrow> string \<Rightarrow> int \<Rightarrow> 'a manager_scheme \<Rightarrow> bool \<times> 'a manager_scheme" where
  "start_countdown hash_prompt cfg current_time buffer delay m =
     (let ((allowed, reason), m) = check_approval_allowed hash_prompt strip_ansi cfg current_time buffer m
      in if \<not> allowed then (False, emit [Draw (Msg_blocked reason) ''31'', Sleep 2] m)
         else
           let m = (if countdown_running m
                    then m\<lparr> countdown_cancelled := True, countdown_running := False \<rparr>
                    else m)
           in if \<not> countdown_running m
              then
                (let m = m\<lparr> countdown_running := True, countdown_cancelled := False,
                             countdown_approve_now := False, last_buffer := buffer \<rparr>;
                     m = record_approval hash_prompt strip_ansi current_time buffer m;
                     m = m\<lparr> threads := threads m @ [Loop (nat delay)] \<rparr>
                 in (True, m))
              else (False, m))"

section \<open>wrapper.py: ClaudeWrapper\<close>

record wrapper = manager +
  auto_approve_enabled :: bool
  auto_approve_delay :: int
  last_output_time :: real
  last_idle_action_time :: real

text \<open>
  The state after \<^verbatim>\<open>ClaudeWrapper.__init__\<close> and \<^verbatim>\<open>_initialize_components\<close>, where
  \<open>current_time\<close> is the clock at construction.
\<close>

definition init_wrapper :: "config \<Rightarrow> real \<Rightarrow> wrapper" where
  "init_wrapper cfg current_time = \<lparr>
     approval_timestamps = [], approval_hashes = [],
     approval_count = 0, last_approval_time = 0,
     countdown_running = False, countdown_cancelled = False, countdown_approve_now = False,
     last_buffer = [], threads = [], effects = [],
     auto_approve_enabled = auto_approve_enabled_cfg cfg,
     auto_approve_delay = auto_approve_delay_cfg cfg,
     last_output_time = current_time, last_idle_action_time = 0 \<rparr>"

text \<open>
  \<open>data\<close> is the text \<^verbatim>\<open>data.decode("utf-8", errors="replace")\<close> gives, so the
  \<^verbatim>\<open>except\<close> branch of the decoding is not a case of the model.
\<close>

definition handle_claude_output ::
  "(string \<Rightarrow> string) \<Rightarrow> config \<Rightarrow> real \<Rightarrow> string \<Rightarrow> string \<Rightarrow> 'a wrapper_scheme
   \<Rightarrow> (string \<times> bool) \<times> 'a wrapper_scheme" where
  "handle_claude_output hash_prompt cfg current_time data output_buffer w =
     (let w = w\<lparr> last_output_time := current_time \<rparr>;
          w = emit [Stdout_write data] w;
          output_buffer = output_buffer @ data;
          output_buffer = (if length output_buffer > MAX_BUFFER_SIZE
                           then drop (nat \<lfloor>real MAX_BUFFER_SIZE * 0.2\<rfloor>) output_buffer
                           else output_buffer);
          (was_detected, w) =
             (if auto_approve_enabled w \<and> is_permission_prompt cfg output_buffer
              then start_countdown hash_prompt cfg current_time output_buffer (auto_approve_delay w) w
              else (False, w));
          output_buffer = (if was_detected then [] else output_buffer)
      in ((output_buffer, was_detected), w))"

definition check_idle_state :: "config \<Rightarrow> real \<Rightarrow> string \<Rightarrow> 'a wrapper_scheme \<Rightarrow> string \<times> 'a wrapper_scheme" where
  "check_idle_state cfg current_time output_buffer w =
     (if \<not> idle_detection_enabled cfg then (output_buffer, w)
      else if \<not> auto_approve_enabled w \<or> countdown_running w then (output_buffer, w)
      else
        let idle_timeout = idle_timeout_seconds cfg;
            time_since_output = current_time - last_output_time w;
            time_since_idle_action = current_time - last_idle_action_time w
        in if time_since_output \<ge> idle_timeout \<and> time_since_idle_action \<ge> idle_timeout
              \<and> length output_buffer > 50
           then
             (let w = emit [Draw Msg_idle_detected ''33'', Sleep 0.3] w;
                  prompt_type = get_prompt_type output_buffer;
                  w = emit [Sleep 0.1] w;
                  w = (if prompt_type = numbered_menu then emit [Pty_write [CR]] w
                       else emit [Pty_write ''yes'', Sleep 0.1, Pty_write [CR]] w);
                  w = w\<lparr> last_idle_action_time := current_time \<rparr>;
                  w = w\<lparr> approval_count := approval_count w + 1 \<rparr>;
                  w = w\<lparr> last_approval_time := current_time \<rparr>;
                  w = w\<lparr> approval_timestamps := approval_timestamps w @ [current_time] \<rparr>;
                  w = emit [Draw (Msg_idle_approved (approval_count w)) ''32'', Sleep 0.3,
                            Clear (auto_approve_enabled w) (approval_count w)] w
              in ([], w))
           else (output_buffer, w))"

section \<open>Vocabulary of the properties\<close>

text \<open>
  \<open>record_approvals\<close> is a run of calls of \<^verbatim>\<open>record_approval\<close> for one text, one call
  per clock reading of the list. \<open>live_same\<close> and \<open>live_total\<close> count the records that
  are younger than 60 seconds at a given time: those of one fingerprint, and all of them.
\<close>

definition record_approvals ::
  "(string \<Rightarrow> string) \<Rightarrow> (string \<Rightarrow> string) \<Rightarrow> real list \<Rightarrow> string \<Rightarrow> 'a limiter_scheme
   \<Rightarrow> 'a limiter_scheme" where
  "record_approvals hash_prompt strip_ansi_func stamps text s =
     foldl (\<lambda>s t. record_approval hash_prompt strip_ansi_func t text s) s stamps"

definition live_same :: "real \<Rightarrow> string \<Rightarrow> (string \<times> real) list \<Rightarrow> int" where
  "live_same current_time prompt_hash hs =
     int (length (filter (\<lambda>(h, t). h = prompt_hash \<and> current_time - t < 60) hs))"

definition live_total :: "real \<Rightarrow> real list \<Rightarrow> int" where
  "live_total current_time ts = int (length (filter (\<lambda>t. current_time - t < 60) ts))"



section \<open>The matcher on the patterns of the normalizer\<close>

declare rx_match.simps(6) [simp del]

declare rx_sub.simps [simp del]






























section \<open>The escape-code normalizer\<close>




section \<open>The rate and loop limiter\<close>

lemma cleanup_idem:
  "cleanup_old_entries t w (cleanup_old_entries t w s) = cleanup_old_entries t w s"
  by (simp add: cleanup_old_entries_def)

lemma check_state: "snd (check_approval_allowed H f cfg t x s) = cleanup_old_entries t 60 s"
  by (simp add: check_approval_allowed_def Let_def)

lemma check_cleanup:
  "fst (check_approval_allowed H f cfg t x (cleanup_old_entries t 60 s))
     = fst (check_approval_allowed H f cfg t x s)"
  by (simp add: check_approval_allowed_def Let_def cleanup_idem)

lemma funpow_cleanup:
  "(cleanup_old_entries t w ^^ Suc n) s = cleanup_old_entries t w s"
  by (induction n) (simp_all add: cleanup_idem)

lemma funpow_check:
  "((\<lambda>s. snd (check_approval_allowed H f cfg t x s)) ^^ n) s = (cleanup_old_entries t 60 ^^ n) s"
  by (simp add: check_state)

lemma same_count_cleanup:
  "int (length (filter (\<lambda>(h, t). h = k) (approval_hashes (cleanup_old_entries now 60 s))))
     = live_same now k (approval_hashes s)"
proof -
  have "filter (\<lambda>(h, t). h = k) (filter (\<lambda>(h, t). now - t < 60) hs)
          = filter (\<lambda>(h, t). h = k \<and> now - t < 60) hs" for hs :: "(string \<times> real) list"
    by (induction hs) auto
  then show ?thesis
    by (simp add: cleanup_old_entries_def live_same_def del: filter_filter)
qed

lemma total_count_cleanup:
  "int (length (approval_timestamps (cleanup_old_entries now 60 s)))
     = live_total now (approval_timestamps s)"
  by (simp add: cleanup_old_entries_def live_total_def)

lemma check_verdict:
  "fst (check_approval_allowed H f cfg now text s) =
     (if live_same now (H (f text)) (approval_hashes s) \<ge> max_same_prompt_approvals cfg
      then (False, Some (same_prompt_reason (live_same now (H (f text)) (approval_hashes s))
                           (max_same_prompt_approvals cfg)))
      else if live_total now (approval_timestamps s) \<ge> max_approvals_per_minute cfg
      then (False, Some (rate_limit_reason (live_total now (approval_timestamps s))
                           (max_approvals_per_minute cfg)))
      else (True, None))"
  unfolding check_approval_allowed_def Let_def same_count_cleanup total_count_cleanup
  by simp

lemma record_approvals_hashes:
  "approval_hashes (record_approvals H f ts p s) = approval_hashes s @ map (\<lambda>t. (H (f p), t)) ts"
  unfolding record_approvals_def
  by (induction ts arbitrary: s) (simp_all add: record_approval_def Let_def)

lemma record_approvals_timestamps:
  "approval_timestamps (record_approvals H f ts p s) = approval_timestamps s @ ts"
  unfolding record_approvals_def
  by (induction ts arbitrary: s) (simp_all add: record_approval_def Let_def)

lemma live_same_append: "live_same now k (xs @ ys) = live_same now k xs + live_same now k ys"
  by (simp add: live_same_def)

lemma live_same_map_same:
  "\<forall>t \<in> set ts. now - t < 60 \<Longrightarrow> live_same now k (map (\<lambda>t. (k, t)) ts) = int (length ts)"
  by (induction ts) (simp_all add: live_same_def)

lemma live_same_map_other:
  "k' \<noteq> k \<Longrightarrow> live_same now k' (map (\<lambda>t. (k, t)) ts) = 0"
  by (induction ts) (simp_all add: live_same_def)

lemma live_same_nonneg: "0 \<le> live_same now k hs"
  by (simp add: live_same_def)

lemma strip_test_prompt: "strip_ansi ''Test prompt'' = ''Test prompt''"
  by code_simp

lemma strip_second_prompt: "strip_ansi ''Second prompt'' = ''Second prompt''"
  by code_simp

lemma reason_5_5: "same_prompt_reason 5 5 = ''Same prompt approved 5 times in 60s (max: 5)''"
  by code_simp

text \<open>
  Claim C10. A check only filters the two lists (it keeps, in order, the records younger
  than 60 seconds and appends nothing), and after any number \<open>n\<close> of checks at the same
  instant a further check gives the same verdict and leaves the same records as the
  first one.
\<close>

theorem check_approval_allowed_repeatable:
  "approval_timestamps (snd (check_approval_allowed H f cfg t x s))
     = filter (\<lambda>u. t - u < 60) (approval_timestamps s)
   \<and> approval_hashes (snd (check_approval_allowed H f cfg t x s))
     = filter (\<lambda>(h, u). t - u < 60) (approval_hashes s)
   \<and> fst (check_approval_allowed H f cfg t x
            (((\<lambda>s. snd (check_approval_allowed H f cfg t x s)) ^^ n) s))
     = fst (check_approval_allowed H f cfg t x s)
   \<and> snd (check_approval_allowed H f cfg t x
            (((\<lambda>s. snd (check_approval_allowed H f cfg t x s)) ^^ n) s))
     = snd (check_approval_allowed H f cfg t x s)"
proof -
  have a: "fst (check_approval_allowed H f cfg t x
                 (((\<lambda>s. snd (check_approval_allowed H f cfg t x s)) ^^ n) s))
             = fst (check_approval_allowed H f cfg t x s)"
    by (cases n) (simp_all only: funpow_check funpow_cleanup check_cleanup funpow_0 id_apply)
  have b: "snd (check_approval_allowed H f cfg t x
                 (((\<lambda>s. snd (check_approval_allowed H f cfg t x s)) ^^ n) s))
             = snd (check_approval_allowed H f cfg t x s)"
    by (cases n)
       (simp_all only: funpow_check funpow_cleanup check_state cleanup_idem funpow_0 id_apply)
  show ?thesis
    using a b by (simp add: check_state cleanup_old_entries_def)
qed

theorem check_approval_allowed_repeatable_witness:
  "approval_timestamps (snd (check_approval_allowed (\<lambda>x. x) strip_ansi DEFAULT_CONFIG 70 ''Test prompt''
      \<lparr>approval_timestamps = [5, 30], approval_hashes = [(''Test prompt'', 5), (''Test prompt'', 30)]\<rparr>))
     = [30]
   \<and> fst (check_approval_allowed (\<lambda>x. x) strip_ansi DEFAULT_CONFIG 70 ''Test prompt''
        (((\<lambda>s. snd (check_approval_allowed (\<lambda>x. x) strip_ansi DEFAULT_CONFIG 70 ''Test prompt'' s)) ^^ 3)
           \<lparr>approval_timestamps = [5, 30], approval_hashes = [(''Test prompt'', 5), (''Test prompt'', 30)]\<rparr>))
     = (True, None)"
  using check_approval_allowed_repeatable[of "\<lambda>x. x" strip_ansi DEFAULT_CONFIG 70 "''Test prompt''"
      "\<lparr>approval_timestamps = [5, 30], approval_hashes = [(''Test prompt'', 5), (''Test prompt'', 30)]\<rparr>" 3]
  by (simp add: check_verdict live_same_def live_total_def DEFAULT_CONFIG_def)

text \<open>
  Claim C8, as amended. A record is kept, and counts toward both limits, exactly while
  its age is below 60 seconds: the verdict of a check is the one computed from the
  records younger than 60 seconds, and these are the records the check leaves in the
  two lists. A record whose age is 60 seconds or more does not count.
\<close>

theorem sliding_window_counts_younger_than_60:
  "fst (check_approval_allowed H f cfg now text s) =
     (if live_same now (H (f text)) (approval_hashes s) \<ge> max_same_prompt_approvals cfg
      then (False, Some (same_prompt_reason (live_same now (H (f text)) (approval_hashes s))
                           (max_same_prompt_approvals cfg)))
      else if live_total now (approval_timestamps s) \<ge> max_approvals_per_minute cfg
      then (False, Some (rate_limit_reason (live_total now (approval_timestamps s))
                           (max_approvals_per_minute cfg)))
      else (True, None))
   \<and> approval_timestamps (snd (check_approval_allowed H f cfg now text s))
     = filter (\<lambda>t. now - t < 60) (approval_timestamps s)
   \<and> approval_hashes (snd (check_approval_allowed H f cfg now text s))
     = filter (\<lambda>(h, t). now - t < 60) (approval_hashes s)"
  by (simp add: check_verdict check_state cleanup_old_entries_def)

text \<open>Five records of one prompt of age 59.5 seconds block it; the five of age 70 are gone.\<close>

theorem sliding_window_counts_younger_than_60_witness:
  "check_approval_allowed (\<lambda>x. x) strip_ansi DEFAULT_CONFIG 80 ''Test prompt''
     \<lparr>approval_timestamps = [10, 10, 10, 10, 10, 20.5, 20.5, 20.5, 20.5, 20.5],
      approval_hashes = [(''Test prompt'', 10), (''Test prompt'', 10), (''Test prompt'', 10),
                         (''Test prompt'', 10), (''Test prompt'', 10), (''Test prompt'', 20.5),
                         (''Test prompt'', 20.5), (''Test prompt'', 20.5), (''Test prompt'', 20.5),
                         (''Test prompt'', 20.5)]\<rparr>
   = ((False, Some ''Same prompt approved 5 times in 60s (max: 5)''),
      \<lparr>approval_timestamps = [20.5, 20.5, 20.5, 20.5, 20.5],
       approval_hashes = [(''Test prompt'', 20.5), (''Test prompt'', 20.5), (''Test prompt'', 20.5),
                          (''Test prompt'', 20.5), (''Test prompt'', 20.5)]\<rparr>)"
  using sliding_window_counts_younger_than_60[of "\<lambda>x. x" strip_ansi DEFAULT_CONFIG 80 "''Test prompt''"
     "\<lparr>approval_timestamps = [10, 10, 10, 10, 10, 20.5, 20.5, 20.5, 20.5, 20.5],
      approval_hashes = [(''Test prompt'', 10), (''Test prompt'', 10), (''Test prompt'', 10),
                         (''Test prompt'', 10), (''Test prompt'', 10), (''Test prompt'', 20.5),
                         (''Test prompt'', 20.5), (''Test prompt'', 20.5), (''Test prompt'', 20.5),
                         (''Test prompt'', 20.5)]\<rparr>"]
  by (simp add: prod_eq_iff check_state cleanup_old_entries_def live_same_def live_total_def
        DEFAULT_CONFIG_def strip_test_prompt reason_5_5)

text \<open>
  Five records of one prompt of age exactly 60 seconds: the claim counts them, which
  would block the prompt, but the check allows it and drops all five.
\<close>

theorem record_of_age_60_not_counted:
  "check_approval_allowed (\<lambda>x. x) strip_ansi DEFAULT_CONFIG 60 ''Test prompt''
     \<lparr>approval_timestamps = [0, 0, 0, 0, 0],
      approval_hashes = [(''Test prompt'', 0), (''Test prompt'', 0), (''Test prompt'', 0),
                         (''Test prompt'', 0), (''Test prompt'', 0)]\<rparr>
   = ((True, None), \<lparr>approval_timestamps = [], approval_hashes = []\<rparr>)"
  by (simp add: check_approval_allowed_def cleanup_old_entries_def Let_def DEFAULT_CONFIG_def)

text \<open>
  Claim C3. After as many records of a prompt \<open>p\<close> as \<^verbatim>\<open>max_same_prompt_approvals\<close>, all
  younger than 60 seconds at the time of the check, the check for \<open>p\<close> refuses with the
  same-prompt reason. At that moment the check for a text \<open>q\<close> of another fingerprint
  allows, when \<open>q\<close> itself had fewer live records than the limit before and the number of
  live records is below \<^verbatim>\<open>max_approvals_per_minute\<close>. The limiter \<open>s\<close> before the records
  is arbitrary; in the new limiter both counts of \<open>s\<close> are 0.
\<close>

theorem same_prompt_loop_detected:
  assumes n: "int (length ts) = max_same_prompt_approvals cfg"
    and w: "\<forall>t \<in> set ts. now - t < 60"
  shows "fst (check_approval_allowed H strip_ansi cfg now p (record_approvals H strip_ansi ts p s))
           = (False, Some (same_prompt_reason
                (live_same now (H (strip_ansi p)) (approval_hashes s) + max_same_prompt_approvals cfg)
                (max_same_prompt_approvals cfg)))
       \<and> (H (strip_ansi q) \<noteq> H (strip_ansi p)
            \<and> live_same now (H (strip_ansi q)) (approval_hashes s) < max_same_prompt_approvals cfg
            \<and> live_total now (approval_timestamps (record_approvals H strip_ansi ts p s))
                < max_approvals_per_minute cfg
          \<longrightarrow> fst (check_approval_allowed H strip_ansi cfg now q (record_approvals H strip_ansi ts p s))
                = (True, None))"
proof -
  have same: "live_same now (H (strip_ansi p)) (approval_hashes (record_approvals H strip_ansi ts p s))
              = live_same now (H (strip_ansi p)) (approval_hashes s) + max_same_prompt_approvals cfg"
    using n w by (simp add: record_approvals_hashes live_same_append live_same_map_same)
  have other: "live_same now (H (strip_ansi q)) (approval_hashes (record_approvals H strip_ansi ts p s))
              = live_same now (H (strip_ansi q)) (approval_hashes s)"
    if "H (strip_ansi q) \<noteq> H (strip_ansi p)"
    using that by (simp add: record_approvals_hashes live_same_append live_same_map_other)
  have blocked: "fst (check_approval_allowed H strip_ansi cfg now p (record_approvals H strip_ansi ts p s))
           = (False, Some (same_prompt_reason
                (live_same now (H (strip_ansi p)) (approval_hashes s) + max_same_prompt_approvals cfg)
                (max_same_prompt_approvals cfg)))"
    using live_same_nonneg[of now "H (strip_ansi p)" "approval_hashes s"]
    by (simp add: check_verdict same)
  have allowed: "fst (check_approval_allowed H strip_ansi cfg now q (record_approvals H strip_ansi ts p s))
                = (True, None)"
    if "H (strip_ansi q) \<noteq> H (strip_ansi p)"
      and "live_same now (H (strip_ansi q)) (approval_hashes s) < max_same_prompt_approvals cfg"
      and "live_total now (approval_timestamps (record_approvals H strip_ansi ts p s))
                < max_approvals_per_minute cfg"
    using that by (simp add: check_verdict other)
  show ?thesis
    using blocked allowed by blast
qed

theorem same_prompt_loop_detected_witness:
  "fst (check_approval_allowed (\<lambda>x. x) strip_ansi DEFAULT_CONFIG 10 ''Test prompt''
          (record_approvals (\<lambda>x. x) strip_ansi [1, 2, 3, 4, 5] ''Test prompt''
             \<lparr>approval_timestamps = [], approval_hashes = []\<rparr>))
     = (False, Some ''Same prompt approved 5 times in 60s (max: 5)'')
   \<and> fst (check_approval_allowed (\<lambda>x. x) strip_ansi DEFAULT_CONFIG 10 ''Second prompt''
          (record_approvals (\<lambda>x. x) strip_ansi [1, 2, 3, 4, 5] ''Test prompt''
             \<lparr>approval_timestamps = [], approval_hashes = []\<rparr>))
     = (True, None)"
  using same_prompt_loop_detected[of "[1, 2, 3, 4, 5]" DEFAULT_CONFIG 10 "\<lambda>x. x" "''Test prompt''"
      "\<lparr>approval_timestamps = [], approval_hashes = []\<rparr>" "''Second prompt''"]
  by (simp add: DEFAULT_CONFIG_def strip_test_prompt strip_second_prompt reason_5_5 live_same_def
        live_total_def record_approvals_timestamps)

section \<open>The prompt classifier\<close>

lemma Let_eqI: "(\<And>x. x = a \<Longrightarrow> f x = c) \<Longrightarrow> Let a f = c"
  by simp

lemma Let_constI: "(\<And>x. f x = c) \<Longrightarrow> Let a f = c"
  by simp

lemma fenced_score:
  "str_in ''```'' (strip_ansi text) \<Longrightarrow> permission_score cfg text = 0"
  unfolding permission_score_def
  apply (rule Let_eqI)
  apply (rule Let_constI, rule Let_constI, rule Let_constI, rule Let_constI, rule Let_constI,
         rule Let_constI, rule Let_constI, rule Let_constI, rule Let_constI, rule Let_constI,
         rule Let_constI, rule Let_constI, rule Let_constI, rule Let_constI)
  apply (simp add: Let_def)
  done

lemma score_rule_buttons_cancel:
  "permission_score DEFAULT_CONFIG ''Permission rule: test\<newline>1. Yes\<newline>2. No\<newline>Esc to cancel'' = 6"
  by code_simp

lemma type_rule_buttons_cancel:
  "get_prompt_type ''Permission rule: test\<newline>1. Yes\<newline>2. No\<newline>Esc to cancel'' = numbered_menu"
  by code_simp

lemma score_proceed_buttons:
  "permission_score DEFAULT_CONFIG ''Do you want to proceed?\<newline>1. Yes\<newline>2. No'' = 5"
  by code_simp

lemma score_buttons: "permission_score DEFAULT_CONFIG ''1. Yes\<newline>2. No'' = 3"
  by code_simp

lemma score_rule_only: "permission_score DEFAULT_CONFIG ''Permission rule: without buttons'' = 2"
  by code_simp

lemma min_score_default: "min_detection_score DEFAULT_CONFIG = 3"
  by (simp add: DEFAULT_CONFIG_def)

text \<open>
  Claim C2, as amended. With the default configuration the four worked texts score 6, 5,
  3 and 2, the first three are permission prompts and the last is not, and the first is
  a numbered menu. For every configuration and every text whose normalized form contains
  the fenced-code marker the score is 0, and the text is no permission prompt when the
  threshold is positive (the default is 3).
\<close>

theorem classifier_worked_cases:
  "permission_score DEFAULT_CONFIG ''Permission rule: test\<newline>1. Yes\<newline>2. No\<newline>Esc to cancel'' = 6
   \<and> is_permission_prompt DEFAULT_CONFIG ''Permission rule: test\<newline>1. Yes\<newline>2. No\<newline>Esc to cancel''
   \<and> get_prompt_type ''Permission rule: test\<newline>1. Yes\<newline>2. No\<newline>Esc to cancel'' = numbered_menu
   \<and> permission_score DEFAULT_CONFIG ''Do you want to proceed?\<newline>1. Yes\<newline>2. No'' = 5
   \<and> is_permission_prompt DEFAULT_CONFIG ''Do you want to proceed?\<newline>1. Yes\<newline>2. No''
   \<and> permission_score DEFAULT_CONFIG ''1. Yes\<newline>2. No'' = 3
   \<and> is_permission_prompt DEFAULT_CONFIG ''1. Yes\<newline>2. No''
   \<and> permission_score DEFAULT_CONFIG ''Permission rule: without buttons'' = 2
   \<and> \<not> is_permission_prompt DEFAULT_CONFIG ''Permission rule: without buttons''
   \<and> (str_in ''```'' (strip_ansi text)
        \<longrightarrow> permission_score cfg text = 0
            \<and> (0 < min_detection_score cfg \<longrightarrow> \<not> is_permission_prompt cfg text))"
  by (simp add: is_permission_prompt_def score_rule_buttons_cancel type_rule_buttons_cancel
        score_proceed_buttons score_buttons score_rule_only min_score_default fenced_score)

theorem classifier_worked_cases_witness:
  "str_in ''```'' (strip_ansi ''```python\<newline>def foo():\<newline>    pass\<newline>```\<newline>1. Yes\<newline>2. No'')
   \<and> permission_score DEFAULT_CONFIG ''```python\<newline>def foo():\<newline>    pass\<newline>```\<newline>1. Yes\<newline>2. No'' = 0
   \<and> \<not> is_permission_prompt DEFAULT_CONFIG ''```python\<newline>def foo():\<newline>    pass\<newline>```\<newline>1. Yes\<newline>2. No''"
proof -
  have h: "str_in ''```'' (strip_ansi ''```python\<newline>def foo():\<newline>    pass\<newline>```\<newline>1. Yes\<newline>2. No'')"
    by code_simp
  show ?thesis
    using h classifier_worked_cases[of "''```python\<newline>def foo():\<newline>    pass\<newline>```\<newline>1. Yes\<newline>2. No''" DEFAULT_CONFIG]
    by (simp add: min_score_default)
qed

text \<open>
  The raw text ESC [ ``` LF 1. Yes LF 2. No contains the marker, but the normalizer
  removes ESC [ ` as an escape sequence; the rest scores 3 and is a permission prompt.
\<close>

theorem fenced_marker_in_raw_text_still_prompt:
  "str_in ''```'' (ESC # ''[```\<newline>1. Yes\<newline>2. No'')
   \<and> permission_score DEFAULT_CONFIG (ESC # ''[```\<newline>1. Yes\<newline>2. No'') = 3
   \<and> is_permission_prompt DEFAULT_CONFIG (ESC # ''[```\<newline>1. Yes\<newline>2. No'')"
  by code_simp

text \<open>
  Claim C9. No text is both a question prompt and a permission prompt: a text is a
  question prompt exactly when it is no permission prompt and one of the four question
  patterns is found in it.
\<close>

theorem question_prompt_excludes_permission:
  "\<not> (is_question_prompt cfg t \<and> is_permission_prompt cfg t)
   \<and> (is_question_prompt cfg t \<longleftrightarrow>
        \<not> is_permission_prompt cfg t
        \<and> (rx_search (seqs [Plus (Chr is_digit), lit '')'', Plus (Chr is_space)]) t
           \<or> rx_search (lit_ci ''Select an option'') t
           \<or> rx_search (seqs [lit_ci ''Choose'', Star dot, lit '':'']) t
           \<or> rx_search (seqs [lit ''['', Star dot, lit '']'', Star dot, lit ''?'']) t))"
  by (auto simp add: is_question_prompt_def question_patterns_def simp del: seqs.simps)

theorem question_prompt_excludes_permission_witness:
  "is_question_prompt DEFAULT_CONFIG ''Select an option:\<newline>1) Option A\<newline>2) Option B''
   \<and> \<not> is_permission_prompt DEFAULT_CONFIG ''Select an option:\<newline>1) Option A\<newline>2) Option B''
   \<and> rx_search (lit_ci ''Select an option'') ''Select an option:\<newline>1) Option A\<newline>2) Option B''"
proof -
  have q: "is_question_prompt DEFAULT_CONFIG ''Select an option:\<newline>1) Option A\<newline>2) Option B''"
    by code_simp
  have r: "rx_search (lit_ci ''Select an option'') ''Select an option:\<newline>1) Option A\<newline>2) Option B''"
    by code_simp
  show ?thesis
    using q r question_prompt_excludes_permission[of DEFAULT_CONFIG "''Select an option:\<newline>1) Option A\<newline>2) Option B''"]
    by blast
qed

section \<open>The countdown and the multiplexer\<close>

lemma pty_writes_append: "pty_writes (xs @ ys) = pty_writes xs @ pty_writes ys"
  by (induction xs rule: pty_writes.induct) simp_all

lemma countdown_run_unfold:
  "countdown_run t (Loop (Suc k)) m
     = (case countdown_step t (Loop (Suc k)) m of (pc', m') \<Rightarrow> countdown_run t pc' m')"
  "countdown_run t (Loop 0) m = countdown_run t Final_check m"
  "countdown_run t Final_check m
     = (case countdown_step t Final_check m of (pc', m') \<Rightarrow> countdown_run t pc' m')"
  "countdown_run t Finally m = m\<lparr>countdown_running := False\<rparr>"
  "countdown_run t Done m = m"
  by (simp_all add: countdown_run.simps[of _ "Loop _"] countdown_run.simps[of _ Final_check]
          countdown_run.simps[of _ Finally] countdown_run.simps[of _ Done])

lemma create_file_is_prompt:
  "is_permission_prompt (DEFAULT_CONFIG\<lparr>auto_approve_delay_cfg := 0\<rparr>)
     ''Do you want to create this file?\<newline>1. Yes\<newline>2. No''"
  by code_simp

lemma create_file_type:
  "get_prompt_type ''Do you want to create this file?\<newline>1. Yes\<newline>2. No'' = numbered_menu"
  by code_simp

lemma strip_proceed:
  "strip_ansi ''Do you want to proceed?\<newline>1. Yes\<newline>2. No''
     = ''Do you want to proceed?\<newline>1. Yes\<newline>2. No''"
  by code_simp

lemma strip_create:
  "strip_ansi ''Do you want to create this file?\<newline>1. Yes\<newline>2. No''
     = ''Do you want to create this file?\<newline>1. Yes\<newline>2. No''"
  by code_simp

lemma type_proceed:
  "get_prompt_type ''Do you want to proceed?\<newline>1. Yes\<newline>2. No'' = numbered_menu"
  by code_simp

lemma type_confirmation:
  "get_prompt_type ''The package manager is asking for confirmation: type yes to continue''
     = text_input"
  by code_simp

text \<open>
  Claim C1. With the default configuration and a delay of 0, auto-approve enabled, both
  windows of the limiter empty, no approval counted and no countdown thread started yet:
  when the buffer with the new output appended is the text of the scenario, handling the
  output detects the prompt and returns the empty buffer; the countdown thread it starts
  stands behind its loop, which has no iteration; run to its end the thread writes one
  carriage return to the PTY master, with no one-second sleep before it, and the approval
  count is 1.
\<close>

theorem end_to_end_single_approval:
  assumes buf: "output_buffer @ data = ''Do you want to create this file?\<newline>1. Yes\<newline>2. No''"
    and en: "auto_approve_enabled w"
    and ts: "approval_timestamps w = []" and hs: "approval_hashes w = []"
    and d: "auto_approve_delay w = 0"
    and c: "approval_count w = 0" and th: "threads w = []"
  shows "fst (handle_claude_output H (DEFAULT_CONFIG\<lparr>auto_approve_delay_cfg := 0\<rparr>) t data output_buffer w)
           = ([], True)
    \<and> threads (snd (handle_claude_output H (DEFAULT_CONFIG\<lparr>auto_approve_delay_cfg := 0\<rparr>) t data output_buffer w))
           = [Loop 0]
    \<and> effects (thread_finish t' 0
          (snd (handle_claude_output H (DEFAULT_CONFIG\<lparr>auto_approve_delay_cfg := 0\<rparr>) t data output_buffer w)))
           = effects w @ [Stdout_write data, Draw (Msg_auto_approved 1) ''32'', Sleep 0.3, Sleep 0.1,
                          Pty_write [CR], Clear True 1]
    \<and> pty_writes (effects (thread_finish t' 0
          (snd (handle_claude_output H (DEFAULT_CONFIG\<lparr>auto_approve_delay_cfg := 0\<rparr>) t data output_buffer w))))
           = pty_writes (effects w) @ [[CR]]
    \<and> approval_count (thread_finish t' 0
          (snd (handle_claude_output H (DEFAULT_CONFIG\<lparr>auto_approve_delay_cfg := 0\<rparr>) t data output_buffer w)))
           = 1
    \<and> threads (thread_finish t' 0
          (snd (handle_claude_output H (DEFAULT_CONFIG\<lparr>auto_approve_delay_cfg := 0\<rparr>) t data output_buffer w)))
           = [Done]
    \<and> \<not> countdown_running (thread_finish t' 0
          (snd (handle_claude_output H (DEFAULT_CONFIG\<lparr>auto_approve_delay_cfg := 0\<rparr>) t data output_buffer w)))"
proof -
  let ?cfg = "DEFAULT_CONFIG\<lparr>auto_approve_delay_cfg := 0\<rparr>"
  let ?X = "''Do you want to create this file?\<newline>1. Yes\<newline>2. No''"
  let ?w1 = "w\<lparr>last_output_time := t, effects := effects w @ [Stdout_write data],
               countdown_running := True, countdown_cancelled := False,
               countdown_approve_now := False, last_buffer := ?X,
               approval_timestamps := [t], approval_hashes := [(H (strip_ansi ?X), t)],
               threads := [Loop 0]\<rparr>"
  have len: "\<not> length (output_buffer @ data) > MAX_BUFFER_SIZE"
    unfolding buf by (simp add: MAX_BUFFER_SIZE_def)
  have chk: "check_approval_allowed H strip_ansi ?cfg t ?X (w\<lparr>last_output_time := t, effects := effects w @ [Stdout_write data]\<rparr>)
        = ((True, None), w\<lparr>last_output_time := t, effects := effects w @ [Stdout_write data]\<rparr>)"
    using ts hs by (simp add: check_approval_allowed_def cleanup_old_entries_def Let_def DEFAULT_CONFIG_def)
  have h: "handle_claude_output H ?cfg t data output_buffer w = (([], True), ?w1)"
    using len en d ts hs th create_file_is_prompt
    unfolding handle_claude_output_def start_countdown_def Let_def emit_def buf
    by (simp add: chk[unfolded emit_def] record_approval_def Let_def)
  have run: "countdown_run t' (Loop 0) ?w1 = (execute_approval t' ?w1)\<lparr>countdown_running := False\<rparr>"
    by (simp add: countdown_run.simps[of _ "Loop 0"] countdown_run.simps[of _ Final_check]
          countdown_run.simps[of _ Finally] countdown_run.simps[of _ Done])
  show ?thesis
    unfolding h using c
    by (simp add: thread_finish_def run execute_approval_def emit_def Let_def create_file_type
          pty_writes_append)
qed

theorem end_to_end_single_approval_witness:
  "fst (handle_claude_output (\<lambda>x. x) (DEFAULT_CONFIG\<lparr>auto_approve_delay_cfg := 0\<rparr>) 1 ''Do you want to create this file?\<newline>1. Yes\<newline>2. No'' []
          (init_wrapper (DEFAULT_CONFIG\<lparr>auto_approve_delay_cfg := 0\<rparr>) 0)) = ([], True)
   \<and> pty_writes (effects (thread_finish 1 0
        (snd (handle_claude_output (\<lambda>x. x) (DEFAULT_CONFIG\<lparr>auto_approve_delay_cfg := 0\<rparr>) 1 ''Do you want to create this file?\<newline>1. Yes\<newline>2. No'' []
          (init_wrapper (DEFAULT_CONFIG\<lparr>auto_approve_delay_cfg := 0\<rparr>) 0))))) = [[CR]]
   \<and> approval_count (thread_finish 1 0
        (snd (handle_claude_output (\<lambda>x. x) (DEFAULT_CONFIG\<lparr>auto_approve_delay_cfg := 0\<rparr>) 1 ''Do you want to create this file?\<newline>1. Yes\<newline>2. No'' []
          (init_wrapper (DEFAULT_CONFIG\<lparr>auto_approve_delay_cfg := 0\<rparr>) 0)))) = 1"
  using end_to_end_single_approval[where output_buffer = "[]"
      and data = "''Do you want to create this file?\<newline>1. Yes\<newline>2. No''"
      and w = "init_wrapper (DEFAULT_CONFIG\<lparr>auto_approve_delay_cfg := 0\<rparr>) 0"
      and H = "\<lambda>x. x" and t = 1 and t' = 1]
  by (simp add: init_wrapper_def DEFAULT_CONFIG_def)

text \<open>
  Claim C7, as amended. When the idle fallback fires it returns the empty buffer, writes
  to the PTY master the keystrokes that \<^verbatim>\<open>_execute_approval\<close> writes for the same buffer,
  sets the approval count and the last approval time as \<^verbatim>\<open>_execute_approval\<close> does, and
  appends the clock reading to the timestamp window as \<^verbatim>\<open>record_approval\<close> does. It
  leaves the fingerprint window as it was.
\<close>

theorem idle_fallback_effects:
  assumes "idle_detection_enabled cfg" and "auto_approve_enabled w" and "\<not> countdown_running w"
    and "now - last_output_time w \<ge> idle_timeout_seconds cfg"
    and "now - last_idle_action_time w \<ge> idle_timeout_seconds cfg"
    and "length output_buffer > 50"
  shows "fst (check_idle_state cfg now output_buffer w) = []
    \<and> pty_writes (effects (snd (check_idle_state cfg now output_buffer w)))
        = pty_writes (effects (execute_approval now (w\<lparr>last_buffer := output_buffer\<rparr>)))
    \<and> pty_writes (effects (snd (check_idle_state cfg now output_buffer w)))
        = pty_writes (effects w)
          @ (if get_prompt_type output_buffer = numbered_menu then [[CR]] else [''yes'', [CR]])
    \<and> approval_count (snd (check_idle_state cfg now output_buffer w))
        = approval_count (execute_approval now (w\<lparr>last_buffer := output_buffer\<rparr>))
    \<and> approval_count (snd (check_idle_state cfg now output_buffer w)) = approval_count w + 1
    \<and> last_approval_time (snd (check_idle_state cfg now output_buffer w))
        = last_approval_time (execute_approval now (w\<lparr>last_buffer := output_buffer\<rparr>))
    \<and> last_approval_time (snd (check_idle_state cfg now output_buffer w)) = now
    \<and> approval_timestamps (snd (check_idle_state cfg now output_buffer w))
        = approval_timestamps (record_approval H strip_ansi now output_buffer w)
    \<and> approval_timestamps (snd (check_idle_state cfg now output_buffer w))
        = approval_timestamps w @ [now]
    \<and> approval_hashes (snd (check_idle_state cfg now output_buffer w)) = approval_hashes w"
  using assms
  by (simp add: check_idle_state_def execute_approval_def record_approval_def emit_def Let_def
        pty_writes_append)

theorem idle_fallback_effects_witness:
  "fst (check_idle_state DEFAULT_CONFIG 10 ''The package manager is asking for confirmation: type yes to continue'' (init_wrapper DEFAULT_CONFIG 0)) = []
   \<and> pty_writes (effects (snd (check_idle_state DEFAULT_CONFIG 10 ''The package manager is asking for confirmation: type yes to continue'' (init_wrapper DEFAULT_CONFIG 0))))
       = [''yes'', [CR]]
   \<and> approval_count (snd (check_idle_state DEFAULT_CONFIG 10 ''The package manager is asking for confirmation: type yes to continue'' (init_wrapper DEFAULT_CONFIG 0))) = 1
   \<and> last_approval_time (snd (check_idle_state DEFAULT_CONFIG 10 ''The package manager is asking for confirmation: type yes to continue'' (init_wrapper DEFAULT_CONFIG 0))) = 10"
  using idle_fallback_effects[where cfg = DEFAULT_CONFIG and w = "init_wrapper DEFAULT_CONFIG 0"
      and now = 10 and H = "\<lambda>x. x"
      and output_buffer = "''The package manager is asking for confirmation: type yes to continue''"]
  by (simp add: init_wrapper_def DEFAULT_CONFIG_def type_confirmation check_idle_state_def
        execute_approval_def emit_def Let_def)

text \<open>
  In the new wrapper, idle for 10 seconds with 68 characters in the buffer, the fallback
  fires and adds a timestamp, but the fingerprint window stays empty, where
  \<^verbatim>\<open>record_approval\<close> adds the fingerprint of the buffer.
\<close>

theorem idle_fallback_records_no_fingerprint:
  "fst (check_idle_state DEFAULT_CONFIG 10 ''The package manager is asking for confirmation: type yes to continue'' (init_wrapper DEFAULT_CONFIG 0)) = []
   \<and> approval_count (snd (check_idle_state DEFAULT_CONFIG 10 ''The package manager is asking for confirmation: type yes to continue'' (init_wrapper DEFAULT_CONFIG 0))) = 1
   \<and> approval_timestamps (snd (check_idle_state DEFAULT_CONFIG 10 ''The package manager is asking for confirmation: type yes to continue'' (init_wrapper DEFAULT_CONFIG 0))) = [10]
   \<and> approval_hashes (snd (check_idle_state DEFAULT_CONFIG 10 ''The package manager is asking for confirmation: type yes to continue'' (init_wrapper DEFAULT_CONFIG 0))) = []
   \<and> approval_hashes (record_approval (\<lambda>x. x) strip_ansi 10 ''The package manager is asking for confirmation: type yes to continue'' (init_wrapper DEFAULT_CONFIG 0))
       = [(strip_ansi ''The package manager is asking for confirmation: type yes to continue'', 10)]"
  by (simp add: check_idle_state_def init_wrapper_def DEFAULT_CONFIG_def Let_def emit_def
        record_approval_def)

text \<open>
  Claim C5, on the code. A countdown of 3 seconds is started for a prompt and its thread
  has done one iteration. A second \<^verbatim>\<open>start_countdown\<close> for the same buffer, one second
  later, returns true, starts a second countdown thread beside the first and records a
  second approval.
\<close>

theorem start_countdown_same_prompt_restarts:
  "fst (start_countdown (\<lambda>x. x) DEFAULT_CONFIG 0 ''Do you want to proceed?\<newline>1. Yes\<newline>2. No'' 3
          (init_wrapper DEFAULT_CONFIG 0)) = True
   \<and> countdown_running (thread_step 0 0 (snd (start_countdown (\<lambda>x. x) DEFAULT_CONFIG 0
          ''Do you want to proceed?\<newline>1. Yes\<newline>2. No'' 3 (init_wrapper DEFAULT_CONFIG 0))))
   \<and> threads (thread_step 0 0 (snd (start_countdown (\<lambda>x. x) DEFAULT_CONFIG 0
          ''Do you want to proceed?\<newline>1. Yes\<newline>2. No'' 3 (init_wrapper DEFAULT_CONFIG 0)))) = [Loop 2]
   \<and> fst (start_countdown (\<lambda>x. x) DEFAULT_CONFIG 1 ''Do you want to proceed?\<newline>1. Yes\<newline>2. No'' 3
        (thread_step 0 0 (snd (start_countdown (\<lambda>x. x) DEFAULT_CONFIG 0
          ''Do you want to proceed?\<newline>1. Yes\<newline>2. No'' 3 (init_wrapper DEFAULT_CONFIG 0))))) = True
   \<and> threads (snd (start_countdown (\<lambda>x. x) DEFAULT_CONFIG 1 ''Do you want to proceed?\<newline>1. Yes\<newline>2. No'' 3
        (thread_step 0 0 (snd (start_countdown (\<lambda>x. x) DEFAULT_CONFIG 0
          ''Do you want to proceed?\<newline>1. Yes\<newline>2. No'' 3 (init_wrapper DEFAULT_CONFIG 0)))))) = [Loop 2, Loop 3]
   \<and> approval_timestamps (snd (start_countdown (\<lambda>x. x) DEFAULT_CONFIG 1 ''Do you want to proceed?\<newline>1. Yes\<newline>2. No'' 3
        (thread_step 0 0 (snd (start_countdown (\<lambda>x. x) DEFAULT_CONFIG 0
          ''Do you want to proceed?\<newline>1. Yes\<newline>2. No'' 3 (init_wrapper DEFAULT_CONFIG 0)))))) = [0, 1]"
  by (simp add: start_countdown_def check_approval_allowed_def cleanup_old_entries_def
        record_approval_def thread_step_def init_wrapper_def DEFAULT_CONFIG_def emit_def Let_def
        numeral_3_eq_3)

text \<open>
  Claim C4, on the code. A countdown of 1 second is started for one prompt and its thread
  sleeps in its only iteration. \<^verbatim>\<open>start_countdown\<close> for a prompt of another fingerprint
  returns true and leaves the cancel flag cleared, since it sets and clears the one flag
  that both threads read. The first thread then finds the flag cleared at its final check
  and writes its carriage return, and the second thread writes one more: two approval
  writes and an approval count of 2.
\<close>

theorem superseded_countdown_writes_twice:
  "strip_ansi ''Do you want to proceed?\<newline>1. Yes\<newline>2. No''
     \<noteq> strip_ansi ''Do you want to create this file?\<newline>1. Yes\<newline>2. No''
   \<and> fst (start_countdown (\<lambda>x. x) DEFAULT_CONFIG 0.5 ''Do you want to create this file?\<newline>1. Yes\<newline>2. No'' 1
        (thread_step 0.1 0 (snd (start_countdown (\<lambda>x. x) DEFAULT_CONFIG 0
           ''Do you want to proceed?\<newline>1. Yes\<newline>2. No'' 1 (init_wrapper DEFAULT_CONFIG 0))))) = True
   \<and> \<not> countdown_cancelled (snd (start_countdown (\<lambda>x. x) DEFAULT_CONFIG 0.5 ''Do you want to create this file?\<newline>1. Yes\<newline>2. No'' 1
        (thread_step 0.1 0 (snd (start_countdown (\<lambda>x. x) DEFAULT_CONFIG 0
           ''Do you want to proceed?\<newline>1. Yes\<newline>2. No'' 1 (init_wrapper DEFAULT_CONFIG 0))))))
   \<and> pty_writes (effects (thread_finish 1.1 0
        (snd (start_countdown (\<lambda>x. x) DEFAULT_CONFIG 0.5 ''Do you want to create this file?\<newline>1. Yes\<newline>2. No'' 1
        (thread_step 0.1 0 (snd (start_countdown (\<lambda>x. x) DEFAULT_CONFIG 0
           ''Do you want to proceed?\<newline>1. Yes\<newline>2. No'' 1 (init_wrapper DEFAULT_CONFIG 0)))))))) = [[CR]]
   \<and> pty_writes (effects (thread_finish 1.6 1 (thread_finish 1.1 0
        (snd (start_countdown (\<lambda>x. x) DEFAULT_CONFIG 0.5 ''Do you want to create this file?\<newline>1. Yes\<newline>2. No'' 1
        (thread_step 0.1 0 (snd (start_countdown (\<lambda>x. x) DEFAULT_CONFIG 0
           ''Do you want to proceed?\<newline>1. Yes\<newline>2. No'' 1 (init_wrapper DEFAULT_CONFIG 0))))))))) = [[CR], [CR]]
   \<and> approval_count (thread_finish 1.6 1 (thread_finish 1.1 0
        (snd (start_countdown (\<lambda>x. x) DEFAULT_CONFIG 0.5 ''Do you want to create this file?\<newline>1. Yes\<newline>2. No'' 1
        (thread_step 0.1 0 (snd (start_countdown (\<lambda>x. x) DEFAULT_CONFIG 0
           ''Do you want to proceed?\<newline>1. Yes\<newline>2. No'' 1 (init_wrapper DEFAULT_CONFIG 0)))))))) = 2"
  by (simp add: start_countdown_def check_approval_allowed_def cleanup_old_entries_def
        record_approval_def thread_step_def thread_finish_def init_wrapper_def DEFAULT_CONFIG_def
        emit_def Let_def execute_approval_def countdown_run_unfold strip_proceed strip_create
        type_proceed create_file_type)

end
